theory Spec2Isabelle
  imports Main "HOL-Library.Word"
begin

section \<open>Python values, exceptions and results\<close>

text \<open>
  A shallow embedding of \<^verbatim>\<open>pygconsole/console.py\<close> (class \<^verbatim>\<open>Console\<close>) and
  \<^verbatim>\<open>pygconsole/io.py\<close> (class \<^verbatim>\<open>RawIOConsole\<close>).

  Python integers are \<open>int\<close>. A method mutates the object and may raise: it is modelled
  as a function from the state to a pair of what the call did (\<open>Return v\<close>, or \<open>Exn e\<close> when
  the exception \<open>e\<close> leaves the method) and the state the object is left in, since every
  assignment made before a raise stays in the object.
\<close>

datatype error =
  IndexError | TypeError | ValueError | ZeroDivisionError | UnicodeDecodeError | UnboundLocalError

datatype 'a result = Return 'a | Exn error

text \<open>
  A Python \<^verbatim>\<open>str\<close> is the list of its code points; \<open>py_str\<close> writes an ASCII literal.
  A byte is an \<open>8 word\<close>.
\<close>

type_synonym pystr = "nat list"
type_synonym byte = "8 word"

definition py_str :: "string \<Rightarrow> pystr" where
  "py_str s = map of_char s"

text \<open>
  The values a caller can hand to a property setter: a \<^verbatim>\<open>str\<close>, an \<^verbatim>\<open>int\<close>,
  \<^verbatim>\<open>None\<close>, or a tuple or list of such values.
\<close>

datatype pyval = PStr pystr | PInt int | PNone | PSeq "pyval list"

section \<open>The console (console.py)\<close>

record colour =
  red :: int
  green :: int
  blue :: int
  alpha :: int

text \<open>The dataclass \<^verbatim>\<open>CharArgs\<close>; \<open>str\<close> is one character.\<close>

record char_args =
  foreground_colour :: colour
  background_colour :: colour
  italic :: bool
  bold :: bool
  underline :: bool
  str :: nat

text \<open>
  The attributes of a \<^verbatim>\<open>Console\<close> that the grid operations read or write. The
  presentation stream is a \<^verbatim>\<open>deque\<close> of \<^verbatim>\<open>None\<close> or \<^verbatim>\<open>CharArgs\<close>
  with \<^verbatim>\<open>maxlen = _char_memory_size\<close>. The fonts and the pygame surfaces are not part of
  the model; \<open>warnings\<close> counts the calls of \<^verbatim>\<open>self.log.warning\<close>.
\<close>

record console =
  width :: int
  height :: int
  font_transparency :: int
  background_transparency :: int
  c_italic :: bool
  c_bold :: bool
  c_underline :: bool
  default_foreground_colour :: colour
  default_background_colour :: colour
  current_foreground_colour :: colour
  current_background_colour :: colour
  char_memory_size :: int
  presentation_stream :: "char_args option list"
  cursor :: int
  start_window :: int
  end_window :: int
  warnings :: nat

subsection \<open>Sequences and the bounded deque\<close>

text \<open>
  Indexing a list or deque of length \<open>n\<close> accepts the indices from \<open>-n\<close> to \<open>n - 1\<close>, a
  negative one counting from the end, and raises \<^verbatim>\<open>IndexError\<close> elsewhere.
\<close>

definition valid_index :: "'a list \<Rightarrow> int \<Rightarrow> bool" where
  "valid_index xs i = (- int (length xs) \<le> i \<and> i < int (length xs))"

definition py_pos :: "'a list \<Rightarrow> int \<Rightarrow> nat" where
  "py_pos xs i = nat (if i < 0 then int (length xs) + i else i)"

text \<open>
  \<^verbatim>\<open>deque(xs, maxlen)\<close> and \<^verbatim>\<open>d.extend(ys)\<close> keep the last \<open>maxlen\<close> items: what
  is pushed on the right of a full deque drops as many items on the left. A negative
  \<open>maxlen\<close> is refused with \<^verbatim>\<open>ValueError\<close>, which the callers below check.
\<close>

definition deque :: "'a list \<Rightarrow> int \<Rightarrow> 'a list" where
  "deque xs maxlen = drop (length xs - nat maxlen) xs"

definition deque_extend :: "int \<Rightarrow> 'a list \<Rightarrow> 'a list \<Rightarrow> 'a list" where
  "deque_extend maxlen xs ys = deque (xs @ ys) maxlen"

text \<open>\<^verbatim>\<open>[None] * self._width * self._height\<close>: a negative factor gives the empty list.\<close>

definition empty_cells :: "int \<Rightarrow> int \<Rightarrow> char_args option list" where
  "empty_cells w h = replicate (nat w * nat h) None"

subsection \<open>Rendering\<close>

text \<open>
  \<^verbatim>\<open>_chartopixcoord\<close>: \<^verbatim>\<open>None\<close> for a cell outside the window, else its column and row
  in the window (the pixel is the column and the row times the width and the height of a
  glyph, which the font gives). The remainder and the quotient raise on a width of 0.
\<close>

definition chartopixcoord :: "console \<Rightarrow> int \<Rightarrow> (int \<times> int) option result" where
  "chartopixcoord c index_char =
     (if index_char < start_window c then Return None
      else if index_char > end_window c then Return None
      else if width c = 0 then Exn ZeroDivisionError
      else Return (Some ((index_char - start_window c) mod width c,
                         (index_char - start_window c) div width c)))"

text \<open>
  The image of one cell: the read \<^verbatim>\<open>self._presentation_stream[index]\<close> raises
  \<^verbatim>\<open>IndexError\<close> outside the deque, and \<^verbatim>\<open>Font.render\<close> raises \<^verbatim>\<open>ValueError\<close> on
  the null character. An empty cell is rendered as a space. The image itself is not
  modelled, nor are the other failures pygame may have (fonts, surfaces).
\<close>

definition font_surf :: "console \<Rightarrow> int \<Rightarrow> unit result" where
  "font_surf c index =
     (if valid_index (presentation_stream c) index then
        (case presentation_stream c ! py_pos (presentation_stream c) index of
           None \<Rightarrow> Return ()
         | Some cell \<Rightarrow> if str cell = 0 then Exn ValueError else Return ())
      else Exn IndexError)"

text \<open>
  \<^verbatim>\<open>Surface.blit\<close> and \<^verbatim>\<open>Surface.blits\<close> raise \<^verbatim>\<open>TypeError\<close> on a destination
  that is \<^verbatim>\<open>None\<close>.
\<close>

definition blits :: "(int \<times> int) option list \<Rightarrow> unit result" where
  "blits dests = (if list_all (\<lambda>d. d \<noteq> None) dests then Return () else Exn TypeError)"

text \<open>
  The loop of \<^verbatim>\<open>_render_chars\<close> and \<^verbatim>\<open>_render_all\<close>, which collects the destinations
  in \<^verbatim>\<open>surf_to_blit\<close>.
\<close>

fun render_loop ::
  "console \<Rightarrow> int list \<Rightarrow> (int \<times> int) option list \<Rightarrow> (int \<times> int) option list result" where
  "render_loop c [] surf_to_blit = Return surf_to_blit"
| "render_loop c (index # rest) surf_to_blit =
     (case chartopixcoord c index of
        Exn e \<Rightarrow> Exn e
      | Return coord_char \<Rightarrow>
          (case font_surf c index of
             Exn e \<Rightarrow> Exn e
           | Return _ \<Rightarrow> render_loop c rest (surf_to_blit @ [coord_char])))"

definition render_chars :: "console \<Rightarrow> int list \<Rightarrow> unit result" where
  "render_chars c list_of_indexes =
     (case render_loop c list_of_indexes [] of
        Exn e \<Rightarrow> Exn e
      | Return surf_to_blit \<Rightarrow> blits surf_to_blit)"

definition render_char :: "console \<Rightarrow> int \<Rightarrow> unit result" where
  "render_char c index =
     (case chartopixcoord c index of
        Exn e \<Rightarrow> Exn e
      | Return coord_char \<Rightarrow>
          (case font_surf c index of
             Exn e \<Rightarrow> Exn e
           | Return _ \<Rightarrow> blits [coord_char]))"

definition render_all :: "console \<Rightarrow> unit result" where
  "render_all c =
     (case render_loop c [start_window c..end_window c] [] of
        Exn e \<Rightarrow> Exn e
      | Return surf_to_blit \<Rightarrow> blits surf_to_blit)"

subsection \<open>Construction\<close>

definition DEFAULT_ALPHA :: int where
  "DEFAULT_ALPHA = 255"

definition DEFAULT_FOREGROUND_COLOUR :: colour where
  "DEFAULT_FOREGROUND_COLOUR = \<lparr>red = 255, green = 255, blue = 255, alpha = DEFAULT_ALPHA\<rparr>"

definition DEFAULT_BACKGROUND_COLOUR :: colour where
  "DEFAULT_BACKGROUND_COLOUR = \<lparr>red = 0, green = 0, blue = 0, alpha = DEFAULT_ALPHA\<rparr>"

definition DEFAULT_CHAR_MEMORY_SIZE :: int where
  "DEFAULT_CHAR_MEMORY_SIZE = 80 * 24 * 10"

text \<open>
  \<^verbatim>\<open>__init__\<close> followed by \<^verbatim>\<open>_init_console\<close>, for a name not yet registered: the
  arguments are the width, the height and the two transparencies.
\<close>

definition init_console :: "int \<Rightarrow> int \<Rightarrow> int \<Rightarrow> int \<Rightarrow> unit result \<times> console" where
  "init_console w h ft bt =
     (let c = \<lparr>width = w, height = h, font_transparency = ft, background_transparency = bt,
               c_italic = False, c_bold = False, c_underline = False,
               default_foreground_colour = DEFAULT_FOREGROUND_COLOUR\<lparr>alpha := ft\<rparr>,
               default_background_colour = DEFAULT_BACKGROUND_COLOUR\<lparr>alpha := bt\<rparr>,
               current_foreground_colour = DEFAULT_FOREGROUND_COLOUR\<lparr>alpha := ft\<rparr>,
               current_background_colour = DEFAULT_BACKGROUND_COLOUR\<lparr>alpha := bt\<rparr>,
               char_memory_size = DEFAULT_CHAR_MEMORY_SIZE,
               presentation_stream = deque (empty_cells w h) DEFAULT_CHAR_MEMORY_SIZE,
               cursor = 0, start_window = 0, end_window = w * h - 1, warnings = 0\<rparr>
      in (render_all c, c))"

subsection \<open>Attributes\<close>

definition STANDARD_COLOURS :: "pystr \<Rightarrow> colour option" where
  "STANDARD_COLOURS = map_of
     [(py_str ''black'', \<lparr>red = 0, green = 0, blue = 0, alpha = DEFAULT_ALPHA\<rparr>),
      (py_str ''red'', \<lparr>red = 170, green = 0, blue = 0, alpha = DEFAULT_ALPHA\<rparr>),
      (py_str ''green'', \<lparr>red = 0, green = 170, blue = 0, alpha = DEFAULT_ALPHA\<rparr>),
      (py_str ''yellow'', \<lparr>red = 170, green = 85, blue = 0, alpha = DEFAULT_ALPHA\<rparr>),
      (py_str ''blue'', \<lparr>red = 0, green = 0, blue = 170, alpha = DEFAULT_ALPHA\<rparr>),
      (py_str ''magenta'', \<lparr>red = 170, green = 0, blue = 170, alpha = DEFAULT_ALPHA\<rparr>),
      (py_str ''cyan'', \<lparr>red = 0, green = 170, blue = 170, alpha = DEFAULT_ALPHA\<rparr>),
      (py_str ''white'', \<lparr>red = 170, green = 170, blue = 170, alpha = DEFAULT_ALPHA\<rparr>),
      (py_str ''bright_black'', \<lparr>red = 85, green = 85, blue = 85, alpha = DEFAULT_ALPHA\<rparr>),
      (py_str ''bright_red'', \<lparr>red = 255, green = 85, blue = 85, alpha = DEFAULT_ALPHA\<rparr>),
      (py_str ''bright_green'', \<lparr>red = 85, green = 255, blue = 85, alpha = DEFAULT_ALPHA\<rparr>),
      (py_str ''bright_yellow'', \<lparr>red = 255, green = 255, blue = 85, alpha = DEFAULT_ALPHA\<rparr>),
      (py_str ''bright_blue'', \<lparr>red = 85, green = 85, blue = 255, alpha = DEFAULT_ALPHA\<rparr>),
      (py_str ''bright_magenta'', \<lparr>red = 255, green = 85, blue = 255, alpha = DEFAULT_ALPHA\<rparr>),
      (py_str ''bright_cyan'', \<lparr>red = 85, green = 255, blue = 255, alpha = DEFAULT_ALPHA\<rparr>),
      (py_str ''bright_white'', \<lparr>red = 255, green = 255, blue = 255, alpha = DEFAULT_ALPHA\<rparr>)]"

text \<open>
  The setters of \<^verbatim>\<open>font_transparency\<close> and \<^verbatim>\<open>background_transparency\<close>, for an
  \<^verbatim>\<open>int\<close> argument: \<^verbatim>\<open>int(value)\<close> is then the value itself and the handler of
  \<^verbatim>\<open>ValueError\<close> is not entered. The \<^verbatim>\<open>finally\<close> block clamps, stores and renders.
\<close>

definition set_font_transparency :: "int \<Rightarrow> console \<Rightarrow> unit result \<times> console" where
  "set_font_transparency v c =
     (let value_int = (if v > 255 then 255 else if v < 0 then 0 else v);
          c1 = c\<lparr>font_transparency := value_int\<rparr>
      in (render_all c1, c1))"

definition set_background_transparency :: "int \<Rightarrow> console \<Rightarrow> unit result \<times> console" where
  "set_background_transparency v c =
     (let value_int = (if v > 255 then 255 else if v < 0 then 0 else v);
          c1 = c\<lparr>background_transparency := value_int\<rparr>
      in (render_all c1, c1))"

text \<open>
  \<^verbatim>\<open>-1 < v < 256\<close> for one component: of the values modelled only an \<^verbatim>\<open>int\<close> can be
  compared with an \<^verbatim>\<open>int\<close>, the others raise \<^verbatim>\<open>TypeError\<close>. The conjunction over the
  components stops at the first one out of range.
\<close>

fun in_range :: "pyval \<Rightarrow> bool result" where
  "in_range (PInt x) = Return (-1 < x \<and> x < 256)"
| "in_range _ = Exn TypeError"

fun all_in_range :: "pyval list \<Rightarrow> bool result" where
  "all_in_range [] = Return True"
| "all_in_range (v # vs) =
     (case in_range v of
        Exn e \<Rightarrow> Exn e
      | Return False \<Rightarrow> Return False
      | Return True \<Rightarrow> all_in_range vs)"

fun the_int :: "pyval \<Rightarrow> int" where
  "the_int (PInt x) = x"
| "the_int _ = 0"

text \<open>\<^verbatim>\<open>Colour._make\<close> on four components that passed the range check.\<close>

definition Colour_make :: "pyval list \<Rightarrow> colour" where
  "Colour_make vs = \<lparr>red = the_int (vs ! 0), green = the_int (vs ! 1),
                     blue = the_int (vs ! 2), alpha = the_int (vs ! 3)\<rparr>"

text \<open>A \<^verbatim>\<open>Colour\<close> read back from the console is a tuple of four integers.\<close>

definition colour_value :: "colour \<Rightarrow> pyval" where
  "colour_value k = PSeq [PInt (red k), PInt (green k), PInt (blue k), PInt (alpha k)]"

text \<open>
  The setter of \<^verbatim>\<open>foreground_colour\<close>. A string that is neither a colour name nor
  \<^verbatim>\<open>'default'\<close> falls through both tests of the first branch: nothing is stored and
  nothing is logged. \<^verbatim>\<open>len(value)\<close> raises \<^verbatim>\<open>TypeError\<close> on an \<^verbatim>\<open>int\<close> and on
  \<^verbatim>\<open>None\<close>.
\<close>

definition set_foreground_colour :: "pyval \<Rightarrow> console \<Rightarrow> unit result \<times> console" where
  "set_foreground_colour v c =
     (case v of
        PStr s \<Rightarrow>
          (case STANDARD_COLOURS s of
             Some k \<Rightarrow> (Return (), c\<lparr>current_foreground_colour := k\<lparr>alpha := font_transparency c\<rparr>\<rparr>)
           | None \<Rightarrow>
               if s = py_str ''default''
               then (Return (), c\<lparr>current_foreground_colour :=
                                     (default_foreground_colour c)\<lparr>alpha := font_transparency c\<rparr>\<rparr>)
               else (Return (), c))
      | PInt _ \<Rightarrow> (Exn TypeError, c)
      | PNone \<Rightarrow> (Exn TypeError, c)
      | PSeq vs \<Rightarrow>
          if length vs = 4 then
            (case all_in_range vs of
               Exn e \<Rightarrow> (Exn e, c)
             | Return True \<Rightarrow>
                 set_font_transparency (the_int (vs ! 3))
                   (c\<lparr>current_foreground_colour := Colour_make vs\<rparr>)
             | Return False \<Rightarrow> (Return (), c\<lparr>warnings := Suc (warnings c)\<rparr>))
          else if length vs = 3 then
            (case all_in_range vs of
               Exn e \<Rightarrow> (Exn e, c)
             | Return True \<Rightarrow>
                 (Return (), c\<lparr>current_foreground_colour :=
                                 Colour_make (vs @ [PInt (font_transparency c)])\<rparr>)
             | Return False \<Rightarrow> (Return (), c\<lparr>warnings := Suc (warnings c)\<rparr>))
          else (Return (), c\<lparr>warnings := Suc (warnings c)\<rparr>))"

definition set_background_colour :: "pyval \<Rightarrow> console \<Rightarrow> unit result \<times> console" where
  "set_background_colour v c =
     (case v of
        PStr s \<Rightarrow>
          (case STANDARD_COLOURS s of
             Some k \<Rightarrow> (Return (), c\<lparr>current_background_colour := k\<lparr>alpha := background_transparency c\<rparr>\<rparr>)
           | None \<Rightarrow>
               if s = py_str ''default''
               then (Return (), c\<lparr>current_background_colour :=
                                     (default_background_colour c)\<lparr>alpha := background_transparency c\<rparr>\<rparr>)
               else (Return (), c))
      | PInt _ \<Rightarrow> (Exn TypeError, c)
      | PNone \<Rightarrow> (Exn TypeError, c)
      | PSeq vs \<Rightarrow>
          if length vs = 4 then
            (case all_in_range vs of
               Exn e \<Rightarrow> (Exn e, c)
             | Return True \<Rightarrow>
                 set_background_transparency (the_int (vs ! 3))
                   (c\<lparr>current_background_colour := Colour_make vs\<rparr>)
             | Return False \<Rightarrow> (Return (), c\<lparr>warnings := Suc (warnings c)\<rparr>))
          else if length vs = 3 then
            (case all_in_range vs of
               Exn e \<Rightarrow> (Exn e, c)
             | Return True \<Rightarrow>
                 (Return (), c\<lparr>current_background_colour :=
                                 Colour_make (vs @ [PInt (background_transparency c)])\<rparr>)
             | Return False \<Rightarrow> (Return (), c\<lparr>warnings := Suc (warnings c)\<rparr>))
          else (Return (), c\<lparr>warnings := Suc (warnings c)\<rparr>))"

text \<open>
  The setter of \<^verbatim>\<open>memory_size\<close>, for an \<^verbatim>\<open>int\<close>. The new size is stored before the
  deque is built.
\<close>

definition set_memory_size :: "int \<Rightarrow> console \<Rightarrow> unit result \<times> console" where
  "set_memory_size v c =
     (if v \<ge> width c * height c then
        (let c1 = c\<lparr>char_memory_size := v\<rparr> in
         if v < 0 then (Exn ValueError, c1)
         else (Return (), c1\<lparr>presentation_stream := deque (empty_cells (width c) (height c)) v,
                               cursor := 0, start_window := 0,
                               end_window := width c * height c - 1\<rparr>))
      else (Return (), c\<lparr>warnings := Suc (warnings c)\<rparr>))"

text \<open>
  The setters of \<^verbatim>\<open>width\<close> and \<^verbatim>\<open>height\<close>, for an \<^verbatim>\<open>int\<close>: they build the stream
  anew with the memory size the console has, which they do not compare with the new
  number of cells.
\<close>

definition set_width :: "int \<Rightarrow> console \<Rightarrow> unit result \<times> console" where
  "set_width v c =
     (if v > 0 then
        (let c1 = c\<lparr>width := v\<rparr> in
         if char_memory_size c < 0 then (Exn ValueError, c1)
         else (Return (),
               c1\<lparr>presentation_stream := deque (empty_cells v (height c)) (char_memory_size c),
                  cursor := 0, start_window := 0, end_window := v * height c - 1\<rparr>))
      else (Return (), c\<lparr>warnings := Suc (warnings c)\<rparr>))"


subsection \<open>Cursor moves\<close>

text \<open>
  \<^verbatim>\<open>carriage_return\<close> and \<^verbatim>\<open>line_field\<close> first format a debug message with
  \<^verbatim>\<open>self._cursor // self._width\<close>, which raises on a width of 0.
\<close>

definition carriage_return :: "console \<Rightarrow> unit result \<times> console" where
  "carriage_return c =
     (if width c = 0 then (Exn ZeroDivisionError, c)
      else (Return (), c\<lparr>cursor := (cursor c div width c) * width c\<rparr>))"

definition line_field :: "console \<Rightarrow> unit result \<times> console" where
  "line_field c =
     (if width c = 0 then (Exn ZeroDivisionError, c)
      else (Return (), c\<lparr>cursor := cursor c + width c\<rparr>))"

subsection \<open>Writing characters\<close>

text \<open>
  The part of \<^verbatim>\<open>add_char\<close> that its one-character branch and the body of its loop
  share: build the \<^verbatim>\<open>CharArgs\<close> from the current attributes, add one row of empty
  cells and move the window by one row when the cursor is at or past the end of the
  stream, then store the cell at the cursor. The result tells whether a row was added
  (\<^verbatim>\<open>render_all\<close>). The store raises \<^verbatim>\<open>IndexError\<close> when the cursor is still
  outside the deque.
\<close>

definition put_char :: "nat \<Rightarrow> console \<Rightarrow> bool result \<times> console" where
  "put_char ch c =
     (let char_args = \<lparr>foreground_colour = current_foreground_colour c,
                       background_colour = current_background_colour c,
                       italic = c_italic c, bold = c_bold c, underline = c_underline c,
                       str = ch\<rparr>;
          added = (cursor c \<ge> int (length (presentation_stream c)));
          c1 = (if added
                then c\<lparr>presentation_stream :=
                         deque_extend (char_memory_size c) (presentation_stream c)
                           (replicate (nat (width c)) None),
                       start_window := start_window c + width c,
                       end_window := end_window c + width c\<rparr>
                else c)
      in if valid_index (presentation_stream c1) (cursor c1)
         then (Return added,
               c1\<lparr>presentation_stream :=
                    (presentation_stream c1)
                      [py_pos (presentation_stream c1) (cursor c1) := Some char_args]\<rparr>)
         else (Exn IndexError, c1))"

text \<open>
  The loop of \<^verbatim>\<open>add_char\<close> over a string of several characters, with its two local
  variables \<^verbatim>\<open>render_all\<close> and \<^verbatim>\<open>list_of_indexes\<close>.
\<close>

fun add_char_loop :: "pystr \<Rightarrow> bool \<Rightarrow> int list \<Rightarrow> console \<Rightarrow> (bool \<times> int list) result \<times> console" where
  "add_char_loop [] ra idx c = (Return (ra, idx), c)"
| "add_char_loop (single_char # rest) ra idx c =
     (case put_char single_char c of
        (Exn e, c1) \<Rightarrow> (Exn e, c1)
      | (Return added, c1) \<Rightarrow>
          add_char_loop rest (ra \<or> added) (idx @ [cursor c1]) (c1\<lparr>cursor := cursor c1 + 1\<rparr>))"

definition add_char :: "pystr \<Rightarrow> console \<Rightarrow> unit result \<times> console" where
  "add_char char c =
     (if length char = 0 then (Return (), c)
      else if length char = 1 then
        (case put_char (hd char) c of
           (Exn e, c1) \<Rightarrow> (Exn e, c1)
         | (Return added, c1) \<Rightarrow>
             (case (if added then render_all c1 else render_char c1 (cursor c1)) of
                Exn e \<Rightarrow> (Exn e, c1)
              | Return _ \<Rightarrow> (Return (), c1\<lparr>cursor := cursor c1 + 1\<rparr>)))
      else
        (case add_char_loop char False [] c of
           (Exn e, c1) \<Rightarrow> (Exn e, c1)
         | (Return (ra, idx), c1) \<Rightarrow>
             ((if ra then render_all c1 else render_chars c1 idx), c1)))"

subsection \<open>Clearing\<close>

text \<open>
  \<^verbatim>\<open>for index_char in ...: self._presentation_stream[index_char] = None\<close>: the loop
  stops at the first index outside the deque, with the cells before it already emptied.
\<close>

fun clear_cells :: "int list \<Rightarrow> 'a option list \<Rightarrow> unit result \<times> 'a option list" where
  "clear_cells [] xs = (Return (), xs)"
| "clear_cells (i # rest) xs =
     (if valid_index xs i then clear_cells rest (xs[py_pos xs i := None])
      else (Exn IndexError, xs))"

definition clear :: "string \<Rightarrow> console \<Rightarrow> unit result \<times> console" where
  "clear mode c =
     (let (r, c1) =
        (if mode = ''before'' then
           (let (r, xs) = clear_cells [start_window c..cursor c - 1] (presentation_stream c)
            in (r, c\<lparr>presentation_stream := xs\<rparr>))
         else if mode = ''after'' then
           (let (r, xs) = clear_cells [cursor c..end_window c] (presentation_stream c)
            in (r, c\<lparr>presentation_stream := xs\<rparr>))
         else if mode = ''all_without_memory'' then
           (let (r, xs) = clear_cells [start_window c..end_window c] (presentation_stream c)
            in (r, c\<lparr>presentation_stream := xs\<rparr>))
         else if char_memory_size c < 0 then (Exn ValueError, c)
         else (Return (),
               c\<lparr>presentation_stream := deque (empty_cells (width c) (height c)) (char_memory_size c),
                 cursor := 0, start_window := 0, end_window := width c * height c - 1\<rparr>))
      in case r of Exn e \<Rightarrow> (Exn e, c1) | Return _ \<Rightarrow> (render_all c1, c1))"

subsection \<open>Scrolling\<close>

definition scroll :: "int \<Rightarrow> bool \<Rightarrow> console \<Rightarrow> unit result \<times> console" where
  "scroll nb_lines up c =
     (let c1 =
        (if up then
           (let s = (if start_window c - width c * nb_lines < 0 then 0
                     else start_window c - width c * nb_lines)
            in c\<lparr>start_window := s, end_window := s + width c * height c - 1\<rparr>)
         else
           (let e = (if end_window c + width c * nb_lines > int (length (presentation_stream c))
                     then int (length (presentation_stream c)) - 1
                     else end_window c + width c * nb_lines)
            in c\<lparr>end_window := e, start_window := e - width c * height c + 1\<rparr>))
      in (render_all c1, c1))"

section \<open>The byte stream (io.py)\<close>

subsection \<open>UTF-8\<close>

text \<open>
  \<^verbatim>\<open>codecs.decode(b, encoding='utf-8', errors='strict')\<close>: the strict decoder reads one
  character after the other and refuses a byte that cannot start a character, a wrong
  or missing continuation byte, an overlong form, a surrogate and a code point above
  U+10FFFF; \<^verbatim>\<open>err.start\<close> is the index of the first byte of the character it refuses.
  \<open>utf8_scan\<close> returns the characters read up to there and that index (the length of the
  buffer when nothing is refused).
\<close>

definition cont :: "byte \<Rightarrow> bool" where
  "cont b = (0x80 \<le> b \<and> b \<le> 0xBF)"

definition second_of3 :: "byte \<Rightarrow> byte \<Rightarrow> bool" where
  "second_of3 b0 b1 =
     (if b0 = 0xE0 then 0xA0 \<le> b1 \<and> b1 \<le> 0xBF
      else if b0 = 0xED then 0x80 \<le> b1 \<and> b1 \<le> 0x9F
      else cont b1)"

definition second_of4 :: "byte \<Rightarrow> byte \<Rightarrow> bool" where
  "second_of4 b0 b1 =
     (if b0 = 0xF0 then 0x90 \<le> b1 \<and> b1 \<le> 0xBF
      else if b0 = 0xF4 then 0x80 \<le> b1 \<and> b1 \<le> 0x8F
      else cont b1)"

fun utf8_scan :: "byte list \<Rightarrow> pystr \<times> nat" where
  "utf8_scan [] = ([], 0)"
| "utf8_scan (b0 # bs) =
     (if b0 < 0x80 then
        (case utf8_scan bs of (s, n) \<Rightarrow> (unat b0 # s, n + 1))
      else if 0xC2 \<le> b0 \<and> b0 \<le> 0xDF then
        (case bs of
           b1 # r \<Rightarrow>
             if cont b1
             then (case utf8_scan r of (s, n) \<Rightarrow>
                     (((unat b0 - 0xC0) * 64 + (unat b1 - 0x80)) # s, n + 2))
             else ([], 0)
         | _ \<Rightarrow> ([], 0))
      else if 0xE0 \<le> b0 \<and> b0 \<le> 0xEF then
        (case bs of
           b1 # b2 # r \<Rightarrow>
             if second_of3 b0 b1 \<and> cont b2
             then (case utf8_scan r of (s, n) \<Rightarrow>
                     (((unat b0 - 0xE0) * 4096 + (unat b1 - 0x80) * 64 + (unat b2 - 0x80)) # s,
                      n + 3))
             else ([], 0)
         | _ \<Rightarrow> ([], 0))
      else if 0xF0 \<le> b0 \<and> b0 \<le> 0xF4 then
        (case bs of
           b1 # b2 # b3 # r \<Rightarrow>
             if second_of4 b0 b1 \<and> cont b2 \<and> cont b3
             then (case utf8_scan r of (s, n) \<Rightarrow>
                     (((unat b0 - 0xF0) * 262144 + (unat b1 - 0x80) * 4096
                       + (unat b2 - 0x80) * 64 + (unat b3 - 0x80)) # s,
                      n + 4))
             else ([], 0)
         | _ \<Rightarrow> ([], 0))
      else ([], 0))"

definition utf8_valid_len :: "byte list \<Rightarrow> nat" where
  "utf8_valid_len bs = snd (utf8_scan bs)"

text \<open>\<^verbatim>\<open>b.decode(encoding='utf-8')\<close>: \<open>None\<close> stands for \<^verbatim>\<open>UnicodeDecodeError\<close>.\<close>

definition utf8_decode :: "byte list \<Rightarrow> pystr option" where
  "utf8_decode bs = (if utf8_valid_len bs = length bs then Some (fst (utf8_scan bs)) else None)"

subsection \<open>The tables of the class\<close>

definition CTRL_RANGE :: "byte \<Rightarrow> bool" where
  "CTRL_RANGE b = (b \<le> 0x1f)"

definition SUPPORTED_C0_CTRL :: "byte \<Rightarrow> string option" where
  "SUPPORTED_C0_CTRL = map_of [(0x0a, ''LF''), (0x0d, ''CR''), (0x1b, ''ESC'')]"

definition Fe_RANGE :: "byte \<Rightarrow> bool" where
  "Fe_RANGE b = (0x40 \<le> b \<and> b \<le> 0x5f)"

definition SUPPORTED_C1_CTRL :: "byte \<Rightarrow> string option" where
  "SUPPORTED_C1_CTRL = map_of [(0x5b, ''CSI'')]"

definition FINAL_RANGE :: "byte \<Rightarrow> bool" where
  "FINAL_RANGE b = (0x40 \<le> b \<and> b \<le> 0x7e)"

definition SUPPORTED_FINAL_CTRL :: "byte \<Rightarrow> string option" where
  "SUPPORTED_FINAL_CTRL = map_of [(0x4a, ''ED''), (0x53, ''SU''), (0x54, ''SD''), (0x6d, ''SGR'')]"

definition SEPARATORS :: pystr where
  "SEPARATORS = py_str '';:''"

definition SUPPORTED_SGR_PARAMETERS :: "pystr \<Rightarrow> string option" where
  "SUPPORTED_SGR_PARAMETERS = map_of
     [(py_str ''0'', ''reset''), (py_str ''1'', ''bold''), (py_str ''3'', ''italic''),
      (py_str ''4'', ''underline''), (py_str ''7'', ''negative''), (py_str ''22'', ''not_bold''),
      (py_str ''23'', ''not_italic''), (py_str ''24'', ''not_underline''),
      (py_str ''27'', ''positive'')]"

definition STANDARD_FOREGROUND_COLOURS :: "pystr \<Rightarrow> pystr option" where
  "STANDARD_FOREGROUND_COLOURS = map_of
     [(py_str ''30'', py_str ''black''), (py_str ''31'', py_str ''red''),
      (py_str ''32'', py_str ''green''), (py_str ''33'', py_str ''yellow''),
      (py_str ''34'', py_str ''blue''), (py_str ''35'', py_str ''magenta''),
      (py_str ''36'', py_str ''cyan''), (py_str ''37'', py_str ''white''),
      (py_str ''90'', py_str ''bright_black''), (py_str ''91'', py_str ''bright_red''),
      (py_str ''92'', py_str ''bright_green''), (py_str ''93'', py_str ''bright_yellow''),
      (py_str ''94'', py_str ''bright_blue''), (py_str ''95'', py_str ''bright_magenta''),
      (py_str ''96'', py_str ''bright_cyan''), (py_str ''97'', py_str ''bright_white'')]"

definition STANDARD_BACKGROUND_COLOURS :: "pystr \<Rightarrow> pystr option" where
  "STANDARD_BACKGROUND_COLOURS = map_of
     [(py_str ''40'', py_str ''black''), (py_str ''41'', py_str ''red''),
      (py_str ''42'', py_str ''green''), (py_str ''43'', py_str ''yellow''),
      (py_str ''44'', py_str ''blue''), (py_str ''45'', py_str ''magenta''),
      (py_str ''46'', py_str ''cyan''), (py_str ''47'', py_str ''white''),
      (py_str ''100'', py_str ''bright_black''), (py_str ''101'', py_str ''bright_red''),
      (py_str ''102'', py_str ''bright_green''), (py_str ''103'', py_str ''bright_yellow''),
      (py_str ''104'', py_str ''bright_blue''), (py_str ''105'', py_str ''bright_magenta''),
      (py_str ''106'', py_str ''bright_cyan''), (py_str ''107'', py_str ''bright_white'')]"

subsection \<open>Strings\<close>

text \<open>\<^verbatim>\<open>s.replace(a, b)\<close> for one-character \<open>a\<close> and \<open>b\<close>.\<close>

definition replace_char :: "nat \<Rightarrow> nat \<Rightarrow> pystr \<Rightarrow> pystr" where
  "replace_char a b s = map (\<lambda>ch. if ch = a then b else ch) s"

text \<open>
  \<^verbatim>\<open>s.split(sep)\<close> for a one-character separator: the pieces between the separators,
  the empty ones too; the empty string gives one empty piece.
\<close>

fun split :: "nat \<Rightarrow> pystr \<Rightarrow> pystr list" where
  "split sep [] = [[]]"
| "split sep (ch # s) =
     (if ch = sep then [] # split sep s
      else (case split sep s of
              piece # pieces \<Rightarrow> (ch # piece) # pieces
            | [] \<Rightarrow> [[ch]]))"

subsection \<open>Decoding an escape sequence\<close>

text \<open>What \<^verbatim>\<open>_esc_seq_decode\<close> returns: one of three strings.\<close>

datatype status = Incomplete | Successful | Error

text \<open>One call after the other, the second only if the first returned.\<close>

definition and_then ::
  "unit result \<times> console \<Rightarrow> (console \<Rightarrow> unit result \<times> console) \<Rightarrow> unit result \<times> console" where
  "and_then r f = (case r of (Exn e, c) \<Rightarrow> (Exn e, c) | (Return _, c) \<Rightarrow> f c)"

definition returning :: "status \<Rightarrow> unit result \<times> console \<Rightarrow> status result \<times> console" where
  "returning st r = (case r of (Exn e, c) \<Rightarrow> (Exn e, c) | (Return _, c) \<Rightarrow> (Return st, c))"

text \<open>
  The setters of \<^verbatim>\<open>bold\<close>, \<^verbatim>\<open>italic\<close> and \<^verbatim>\<open>underline\<close>, for a \<^verbatim>\<open>bool\<close>
  argument, as the decoder calls them.
\<close>

definition set_bold :: "bool \<Rightarrow> console \<Rightarrow> unit result \<times> console" where
  "set_bold v c = (Return (), c\<lparr>c_bold := v\<rparr>)"

definition set_italic :: "bool \<Rightarrow> console \<Rightarrow> unit result \<times> console" where
  "set_italic v c = (Return (), c\<lparr>c_italic := v\<rparr>)"

definition set_underline :: "bool \<Rightarrow> console \<Rightarrow> unit result \<times> console" where
  "set_underline v c = (Return (), c\<lparr>c_underline := v\<rparr>)"

text \<open>
  \<^verbatim>\<open>temp_colour = fg; fg = bg; bg = temp_colour\<close> through the two colour setters, of the
  branches \<^verbatim>\<open>'negative'\<close> and \<^verbatim>\<open>'positive'\<close>.
\<close>

definition swap_colours :: "console \<Rightarrow> unit result \<times> console" where
  "swap_colours c =
     (let temp_colour = current_foreground_colour c
      in and_then (set_foreground_colour (colour_value (current_background_colour c)) c)
           (set_background_colour (colour_value temp_colour)))"

text \<open>The body of the loop over the SGR parameters.\<close>

definition sgr_param :: "pystr \<Rightarrow> console \<Rightarrow> unit result \<times> console" where
  "sgr_param param c =
     (case SUPPORTED_SGR_PARAMETERS param of
        Some name \<Rightarrow>
          if name = ''reset'' then
            and_then (and_then (and_then (and_then (set_bold False c) (set_italic False))
              (set_underline False))
              (set_foreground_colour (PStr (py_str ''default''))))
              (set_background_colour (PStr (py_str ''default'')))
          else if name = ''bold'' then set_bold True c
          else if name = ''italic'' then set_italic True c
          else if name = ''underline'' then set_underline True c
          else if name = ''negative'' then swap_colours c
          else if name = ''not_bold'' then set_bold False c
          else if name = ''not_italic'' then set_italic False c
          else if name = ''not_underline'' then set_underline False c
          else if name = ''positive'' then swap_colours c
          else (Return (), c)
      | None \<Rightarrow>
          (case STANDARD_FOREGROUND_COLOURS param of
             Some k \<Rightarrow> set_foreground_colour (PStr k) c
           | None \<Rightarrow>
               (case STANDARD_BACKGROUND_COLOURS param of
                  Some k \<Rightarrow> set_background_colour (PStr k) c
                | None \<Rightarrow> (Return (), c))))"

fun sgr_params :: "pystr list \<Rightarrow> console \<Rightarrow> unit result \<times> console" where
  "sgr_params [] c = (Return (), c)"
| "sgr_params (param # rest) c = and_then (sgr_param param c) (sgr_params rest)"

text \<open>
  The branch \<^verbatim>\<open>'SGR'\<close>, on the parameter bytes: decode, replace every separator by the
  first one, split, take an empty list for \<^verbatim>\<open>['0']\<close>, then run the parameters.
\<close>

definition sgr :: "byte list \<Rightarrow> console \<Rightarrow> status result \<times> console" where
  "sgr params c =
     (case utf8_decode params of
        None \<Rightarrow> (Exn UnicodeDecodeError, c)
      | Some text \<Rightarrow>
          (let sep = hd SEPARATORS;
               formatted_sequence = foldl (\<lambda>s any_sep. replace_char any_sep sep s) text SEPARATORS;
               seq_list = split sep formatted_sequence;
               seq_list = (if length seq_list = 0 then [py_str ''0''] else seq_list)
           in returning Successful (sgr_params seq_list c)))"

text \<open>
  \<^verbatim>\<open>int(params.decode(encoding='utf-8'))\<close>, with \<open>None\<close> for a \<^verbatim>\<open>ValueError\<close>, which
  \<^verbatim>\<open>UnicodeDecodeError\<close> is too. Python's built-in \<^verbatim>\<open>int\<close> on a string is a
  parameter \<open>py_int\<close> of the decoder: \<open>py_int s\<close> is \<open>Some n\<close> when \<^verbatim>\<open>int(s)\<close> returns
  \<open>n\<close> and \<open>None\<close> when it raises \<^verbatim>\<open>ValueError\<close>.
\<close>

definition decode_int :: "(pystr \<Rightarrow> int option) \<Rightarrow> byte list \<Rightarrow> int option" where
  "decode_int py_int params =
     (case utf8_decode params of None \<Rightarrow> None | Some text \<Rightarrow> py_int text)"

text \<open>\<^verbatim>\<open>try: n = int(...) except ValueError: n = dflt\<close>\<close>

definition int_param :: "(pystr \<Rightarrow> int option) \<Rightarrow> byte list \<Rightarrow> int \<Rightarrow> int" where
  "int_param py_int params dflt =
     (case decode_int py_int params of None \<Rightarrow> dflt | Some n \<Rightarrow> n)"

definition esc_seq_decode ::
  "(pystr \<Rightarrow> int option) \<Rightarrow> byte list \<Rightarrow> console \<Rightarrow> status result \<times> console" where
  "esc_seq_decode py_int sequence c =
     (if length sequence = 0 then (Return Incomplete, c)
      else if CTRL_RANGE (sequence ! 0) then
        (case SUPPORTED_C0_CTRL (sequence ! 0) of
           Some c0 \<Rightarrow>
             if c0 = ''ESC'' then
               if length sequence > 1 then
                 if Fe_RANGE (sequence ! 1) then
                   (case SUPPORTED_C1_CTRL (sequence ! 1) of
                      Some c1 \<Rightarrow>
                        if c1 = ''CSI'' then
                          if length sequence > 2 then
                            if FINAL_RANGE (last sequence) then
                              (case SUPPORTED_FINAL_CTRL (last sequence) of
                                 Some final \<Rightarrow>
                                   (let params = butlast (drop 2 sequence) in
                                    if final = ''ED'' then
                                      (let mode = int_param py_int params 3 in
                                       if mode = 0 then returning Successful (clear ''after'' c)
                                       else if mode = 1 then returning Successful (clear ''before'' c)
                                       else if mode = 2
                                       then returning Successful (clear ''all_without_memory'' c)
                                       else if mode = 3 then returning Successful (clear ''all'' c)
                                       else (Return Error, c))
                                    else if final = ''SU'' then
                                      returning Successful (scroll (int_param py_int params 1) True c)
                                    else if final = ''SD'' then
                                      returning Successful (scroll (int_param py_int params 1) False c)
                                    else if final = ''SGR'' then sgr params c
                                    else (Return Error, c))
                               | None \<Rightarrow> (Return Error, c))
                            else (Return Incomplete, c)
                          else (Return Incomplete, c)
                        else (Return Error, c)
                    | None \<Rightarrow> (Return Error, c))
                 else (Return Error, c)
               else (Return Incomplete, c)
             else if c0 = ''LF'' then returning Successful (line_field c)
             else if c0 = ''CR'' then returning Successful (carriage_return c)
             else (Return Error, c)
         | None \<Rightarrow> (Return Error, c))
      else (Return Error, c))"

subsection \<open>Writing bytes\<close>

text \<open>
  A \<^verbatim>\<open>RawIOConsole\<close>: its console and its two buffers, the escape sequence being read
  and the displayable bytes not yet sent to the console.
\<close>

record raw_io =
  io_console :: console
  byte_esc_seq :: "byte list"
  byte_displaying_char :: "byte list"

text \<open>
  \<^verbatim>\<open>if len(self._byte_displaying_char) > 0: self.console.add_char(...decode(...));
  self._byte_displaying_char = bytearray()\<close>
\<close>

definition flush_displaying :: "raw_io \<Rightarrow> unit result \<times> raw_io" where
  "flush_displaying io =
     (if length (byte_displaying_char io) > 0 then
        (case utf8_decode (byte_displaying_char io) of
           None \<Rightarrow> (Exn UnicodeDecodeError, io)
         | Some text \<Rightarrow>
             (case add_char text (io_console io) of
                (Exn e, c) \<Rightarrow> (Exn e, io\<lparr>io_console := c\<rparr>)
              | (Return _, c) \<Rightarrow> (Return (), io\<lparr>io_console := c, byte_displaying_char := []\<rparr>)))
      else (Return (), io))"

text \<open>
  \<^verbatim>\<open>self._byte_esc_seq.append(byte)\<close>, the call of \<^verbatim>\<open>_esc_seq_decode\<close> and the reset
  of the buffer unless the sequence is incomplete.
\<close>

definition append_esc :: "(pystr \<Rightarrow> int option) \<Rightarrow> byte \<Rightarrow> raw_io \<Rightarrow> unit result \<times> raw_io" where
  "append_esc py_int b io =
     (let io1 = io\<lparr>byte_esc_seq := byte_esc_seq io @ [b]\<rparr> in
      case esc_seq_decode py_int (byte_esc_seq io1) (io_console io1) of
        (Exn e, c) \<Rightarrow> (Exn e, io1\<lparr>io_console := c\<rparr>)
      | (Return decoded_esc_seq, c) \<Rightarrow>
          if decoded_esc_seq = Error then (Return (), io1\<lparr>io_console := c, byte_esc_seq := []\<rparr>)
          else if decoded_esc_seq = Successful
          then (Return (), io1\<lparr>io_console := c, byte_esc_seq := []\<rparr>)
          else (Return (), io1\<lparr>io_console := c\<rparr>))"

text \<open>The body of the loop of \<^verbatim>\<open>write\<close> over the bytes.\<close>

definition write_byte :: "(pystr \<Rightarrow> int option) \<Rightarrow> byte \<Rightarrow> raw_io \<Rightarrow> unit result \<times> raw_io" where
  "write_byte py_int b io =
     (if length (byte_esc_seq io) > 0 then append_esc py_int b io
      else if CTRL_RANGE b then
        (case flush_displaying io of
           (Exn e, io1) \<Rightarrow> (Exn e, io1)
         | (Return _, io1) \<Rightarrow> append_esc py_int b io1)
      else (Return (), io\<lparr>byte_displaying_char := byte_displaying_char io @ [b]\<rparr>))"

fun write_bytes :: "(pystr \<Rightarrow> int option) \<Rightarrow> byte list \<Rightarrow> raw_io \<Rightarrow> unit result \<times> raw_io" where
  "write_bytes py_int [] io = (Return (), io)"
| "write_bytes py_int (b # bs) io =
     (case write_byte py_int b io of
        (Exn e, io1) \<Rightarrow> (Exn e, io1)
      | (Return _, io1) \<Rightarrow> write_bytes py_int bs io1)"

text \<open>\<^verbatim>\<open>RawIOConsole.write\<close>.\<close>

definition raw_io_write :: "(pystr \<Rightarrow> int option) \<Rightarrow> byte list \<Rightarrow> raw_io \<Rightarrow> nat result \<times> raw_io" where
  "raw_io_write py_int bytestream io =
     (let byte_sequence = take (utf8_valid_len bytestream) bytestream;
          nb_decoded_bytes = length byte_sequence
      in case write_bytes py_int byte_sequence io of
           (Exn e, io1) \<Rightarrow> (Exn e, io1)
         | (Return _, io1) \<Rightarrow>
             (case flush_displaying io1 of
                (Exn e, io2) \<Rightarrow> (Exn e, io2)
              | (Return _, io2) \<Rightarrow> (Return nb_decoded_bytes, io2)))"

text \<open>
  An integer reader to run the decoder with: the value of a non-empty string of the digits
  \<^verbatim>\<open>0\<close> to \<^verbatim>\<open>9\<close>, and \<open>None\<close> for every other string. On the strings it reads, and
  on the empty string, it is what \<^verbatim>\<open>int\<close> gives.
\<close>

definition digits_int :: "pystr \<Rightarrow> int option" where
  "digits_int s =
     (if s \<noteq> [] \<and> list_all (\<lambda>ch. 48 \<le> ch \<and> ch \<le> 57) s
      then Some (foldl (\<lambda>n ch. 10 * n + (int ch - 48)) 0 s)
      else None)"

text \<open>A console as \<^verbatim>\<open>get_console\<close> makes it, with the default transparencies.\<close>

definition new_console :: "int \<Rightarrow> int \<Rightarrow> console" where
  "new_console w h = snd (init_console w h DEFAULT_ALPHA DEFAULT_ALPHA)"

definition new_raw_io :: "console \<Rightarrow> raw_io" where
  "new_raw_io c = \<lparr>io_console = c, byte_esc_seq = [], byte_displaying_char = []\<rparr>"

text \<open>
  A 2 by 2 console after \<^verbatim>\<open>add_char('abcde')\<close> and \<^verbatim>\<open>carriage_return()\<close>: one row
  of history above the window, the cursor on the first cell of the last row.
\<close>

definition history_console :: console where
  "history_console = snd (carriage_return (snd (add_char (py_str ''abcde'') (new_console 2 2))))"



section \<open>Evaluation on concrete inputs\<close>

lemmas console_defs = new_console_def init_console_def deque_def empty_cells_def
  DEFAULT_ALPHA_def DEFAULT_FOREGROUND_COLOUR_def DEFAULT_BACKGROUND_COLOUR_def
  DEFAULT_CHAR_MEMORY_SIZE_def render_all_def render_chars_def render_char_def valid_index_def
  py_pos_def deque_extend_def chartopixcoord_def font_surf_def blits_def

lemmas decoder_defs = esc_seq_decode_def CTRL_RANGE_def SUPPORTED_C0_CTRL_def Fe_RANGE_def
  SUPPORTED_C1_CTRL_def FINAL_RANGE_def SUPPORTED_FINAL_CTRL_def returning_def

lemmas sgr_defs = sgr_def utf8_decode_def utf8_valid_len_def cont_def SEPARATORS_def py_str_def
  replace_char_def and_then_def sgr_param_def SUPPORTED_SGR_PARAMETERS_def
  STANDARD_FOREGROUND_COLOURS_def STANDARD_BACKGROUND_COLOURS_def set_bold_def set_italic_def
  set_underline_def set_foreground_colour_def set_background_colour_def STANDARD_COLOURS_def

lemmas raw_io_defs = raw_io_write_def write_byte_def append_esc_def flush_displaying_def
  new_raw_io_def

lemma replicate_numeral: "replicate (numeral k) x = x # replicate (pred_numeral k) x"
  by (simp add: numeral_eq_Suc)

lemma list_update_Cons_numeral: "(x # xs)[numeral k := y] = x # xs[pred_numeral k := y]"
  by (simp add: numeral_eq_Suc)

section \<open>Writing past the memory size\<close>

text \<open>
  C1: with \<^verbatim>\<open>memory_size == width*height\<close>, writing \<^verbatim>\<open>width*height + 1\<close> characters
  into the fresh console succeeds and evicts exactly the oldest row. The code does not get
  there. On a 2 by 2 console with a memory of 4 cells, four characters are written
  normally; at the fifth the deque drops the first row to take the new one, so its length
  stays 4 while the cursor is still 4, and the store at the cursor raises
  \<^verbatim>\<open>IndexError\<close>, for five calls of one character as for one call of five.
\<close>

theorem add_char_beyond_memory_raises:
  "fst (init_console 2 2 255 255) = Return ()
   \<and> fst (set_memory_size 4 (new_console 2 2)) = Return ()
   \<and> fst (add_char (py_str ''abcd'') (snd (set_memory_size 4 (new_console 2 2)))) = Return ()
   \<and> fst (add_char (py_str ''e'')
         (snd (add_char (py_str ''abcd'') (snd (set_memory_size 4 (new_console 2 2))))))
       = Exn IndexError
   \<and> fst (add_char (py_str ''abcde'') (snd (set_memory_size 4 (new_console 2 2))))
       = Exn IndexError
   \<and> map (map_option str) (presentation_stream
         (snd (add_char (py_str ''abcde'') (snd (set_memory_size 4 (new_console 2 2))))))
       = [Some 99, Some 100, None, None]
   \<and> cursor (snd (add_char (py_str ''abcde'') (snd (set_memory_size 4 (new_console 2 2))))) = 4"
  by (simp add: console_defs set_memory_size_def add_char_def put_char_def py_str_def
      upto.simps Let_def replicate_numeral list_update_Cons_numeral)

section \<open>SGR without parameter\<close>

text \<open>
  The sequence ESC [ m leaves the console as it is, whatever its state: the empty
  parameter string splits into one empty parameter, which no table knows.
\<close>

lemma esc_seq_decode_sgr_empty:
  "esc_seq_decode py_int [0x1b, 0x5b, 0x6d] c = (Return Successful, c)"
  by (simp add: decoder_defs sgr_defs)

text \<open>
  C2: ESC [ m resets bold, italic, underline and both colours, as ESC [ 0 m does. The code
  does not: after ESC [ 1 ; 3 1 m (bold, red), ESC [ m is accepted but the console is still
  bold and red, while ESC [ 0 m gives back the default rendition.
\<close>

theorem sgr_without_parameter_is_no_reset:
  "fst (raw_io_write digits_int [0x1b, 0x5b, 0x31, 0x3b, 0x33, 0x31, 0x6d, 0x1b, 0x5b, 0x6d]
         (new_raw_io (new_console 2 2))) = Return 10
   \<and> c_bold (io_console (snd (raw_io_write digits_int
         [0x1b, 0x5b, 0x31, 0x3b, 0x33, 0x31, 0x6d, 0x1b, 0x5b, 0x6d]
         (new_raw_io (new_console 2 2)))))
   \<and> current_foreground_colour (io_console (snd (raw_io_write digits_int
         [0x1b, 0x5b, 0x31, 0x3b, 0x33, 0x31, 0x6d, 0x1b, 0x5b, 0x6d]
         (new_raw_io (new_console 2 2)))))
       = \<lparr>red = 170, green = 0, blue = 0, alpha = 255\<rparr>
   \<and> \<not> c_bold (io_console (snd (raw_io_write digits_int
         [0x1b, 0x5b, 0x31, 0x3b, 0x33, 0x31, 0x6d, 0x1b, 0x5b, 0x30, 0x6d]
         (new_raw_io (new_console 2 2)))))
   \<and> current_foreground_colour (io_console (snd (raw_io_write digits_int
         [0x1b, 0x5b, 0x31, 0x3b, 0x33, 0x31, 0x6d, 0x1b, 0x5b, 0x30, 0x6d]
         (new_raw_io (new_console 2 2)))))
       = \<lparr>red = 255, green = 255, blue = 255, alpha = 255\<rparr>"
  by (simp add: raw_io_defs decoder_defs sgr_defs console_defs upto.simps Let_def)

section \<open>Cursor moves: the worked example\<close>

text \<open>
  C3, as stated: on a console of width 80 with the cursor at 42, \<^verbatim>\<open>carriage_return()\<close>
  sets the cursor to 40. It does not: 42 // 80 is 0, so the cursor goes to 0, the first
  column of row 0.
\<close>

theorem carriage_return_42_not_40:
  "cursor (snd (carriage_return ((new_console 80 24)\<lparr>cursor := 42\<rparr>))) \<noteq> 40"
  by (simp add: carriage_return_def new_console_def init_console_def Let_def)

text \<open>
  C3, amended: on a console of width 80 with the cursor at 42, \<^verbatim>\<open>carriage_return()\<close>
  returns normally and sets the cursor to 0, and a following \<^verbatim>\<open>line_field()\<close> returns
  normally and sets the cursor to 80.
\<close>

theorem carriage_return_then_line_field:
  assumes "width c = 80" and "cursor c = 42"
  shows "fst (carriage_return c) = Return ()
    \<and> cursor (snd (carriage_return c)) = 0
    \<and> fst (line_field (snd (carriage_return c))) = Return ()
    \<and> cursor (snd (line_field (snd (carriage_return c)))) = 80"
  using assms by (simp add: carriage_return_def line_field_def)

theorem carriage_return_then_line_field_witness:
  "fst (carriage_return ((new_console 80 24)\<lparr>cursor := 42\<rparr>)) = Return ()
    \<and> cursor (snd (carriage_return ((new_console 80 24)\<lparr>cursor := 42\<rparr>))) = 0
    \<and> fst (line_field (snd (carriage_return ((new_console 80 24)\<lparr>cursor := 42\<rparr>)))) = Return ()
    \<and> cursor (snd (line_field (snd (carriage_return ((new_console 80 24)\<lparr>cursor := 42\<rparr>))))) = 80"
proof -
  have w: "width ((new_console 80 24)\<lparr>cursor := 42\<rparr>) = 80"
    by (simp add: new_console_def init_console_def Let_def)
  have k: "cursor ((new_console 80 24)\<lparr>cursor := 42\<rparr>) = 42"
    by simp
  show ?thesis
    by (rule carriage_return_then_line_field [OF w k])
qed

section \<open>The colour setter on values it does not accept\<close>

text \<open>
  C4: for every value that is not a colour name, \<^verbatim>\<open>'default'\<close>, or a tuple of three or
  four components in [0,255], the setter of \<^verbatim>\<open>foreground_colour\<close> never raises, logs a
  warning and keeps the colour. The code does so for a tuple with a component out of range
  and for a tuple of another length, but not for the two other cases the claim names: an
  integer reaches \<^verbatim>\<open>len(value)\<close>, which raises \<^verbatim>\<open>TypeError\<close>, and an unknown string
  is dropped without a warning.
\<close>

theorem set_foreground_colour_int_raises:
  "set_foreground_colour (PInt 5) c = (Exn TypeError, c)
   \<and> set_foreground_colour (PStr (py_str ''purple'')) c = (Return (), c)
   \<and> set_foreground_colour (PSeq [PInt 300, PInt 0, PInt 0]) c
       = (Return (), c\<lparr>warnings := Suc (warnings c)\<rparr>)"
  by (simp add: set_foreground_colour_def STANDARD_COLOURS_def py_str_def)

section \<open>Scrolling down on a console of width 1\<close>

text \<open>
  C6: scrolling by more rows than the history holds clamps the window (\<^verbatim>\<open>end_window\<close>
  at length - 1 going down) instead of raising. The test of \<^verbatim>\<open>scroll\<close> is
  \<^verbatim>\<open>end_window + width * nb_lines > len(stream)\<close>, one more than the last index: on a
  fresh console of width 1 and height 2, scrolling down by one row moves \<^verbatim>\<open>end_window\<close>
  to 2, the length of the stream, and the rendering raises \<^verbatim>\<open>IndexError\<close>.
\<close>

theorem scroll_down_width_one_raises:
  "fst (init_console 1 2 255 255) = Return ()
   \<and> end_window (new_console 1 2) = 1
   \<and> length (presentation_stream (new_console 1 2)) = 2
   \<and> scroll 1 False (new_console 1 2)
       = (Exn IndexError, (new_console 1 2)\<lparr>end_window := 2, start_window := 1\<rparr>)"
  by (simp add: scroll_def console_defs upto.simps)

section \<open>Bytes after a refused escape sequence\<close>

text \<open>
  C8: \<^verbatim>\<open>write\<close> never raises on malformed input. It does: in ESC followed by the two
  bytes of U+00E9, a valid UTF-8 buffer, the first of the two bytes ends the escape
  sequence with an error and the second is kept as displayable; decoding it alone raises
  \<^verbatim>\<open>UnicodeDecodeError\<close> out of \<^verbatim>\<open>write\<close>, and the byte stays in the buffer.
\<close>

theorem write_split_character_raises:
  "utf8_valid_len [0x1b, 0xc3, 0xa9] = 3
   \<and> raw_io_write py_int [0x1b, 0xc3, 0xa9] (new_raw_io c)
       = (Exn UnicodeDecodeError,
          \<lparr>io_console = c, byte_esc_seq = [], byte_displaying_char = [0xa9]\<rparr>)"
  by (simp add: raw_io_write_def utf8_valid_len_def cont_def write_byte_def new_raw_io_def
      append_esc_def esc_seq_decode_def CTRL_RANGE_def SUPPORTED_C0_CTRL_def Fe_RANGE_def
      flush_displaying_def utf8_decode_def)

section \<open>Transparency\<close>

text \<open>
  C10: the setters of \<^verbatim>\<open>font_transparency\<close> and \<^verbatim>\<open>background_transparency\<close> do not
  reject an integer outside [0,255]: whatever the value before, an integer above 255 stores
  255, a negative one stores 0, and one in [0,255] is stored as given.
\<close>

theorem set_transparency_clamps:
  "font_transparency (snd (set_font_transparency v c))
     = (if v > 255 then 255 else if v < 0 then 0 else v)
   \<and> background_transparency (snd (set_background_transparency v c))
     = (if v > 255 then 255 else if v < 0 then 0 else v)"
  by (simp add: set_font_transparency_def set_background_transparency_def Let_def)

section \<open>Clearing: what changes and what does not\<close>













section \<open>Full clear and clear of the window\<close>







section \<open>Erase in Display\<close>

lemma esc_seq_decode_ed:
  "esc_seq_decode py_int ([0x1b, 0x5b] @ params @ [0x4a]) c =
     (let mode = int_param py_int params 3 in
      if mode = 0 then returning Successful (clear ''after'' c)
      else if mode = 1 then returning Successful (clear ''before'' c)
      else if mode = 2 then returning Successful (clear ''all_without_memory'' c)
      else if mode = 3 then returning Successful (clear ''all'' c)
      else (Return Error, c))"
  by (simp add: esc_seq_decode_def CTRL_RANGE_def SUPPORTED_C0_CTRL_def Fe_RANGE_def
      SUPPORTED_C1_CTRL_def FINAL_RANGE_def SUPPORTED_FINAL_CTRL_def)

text \<open>
  C5: for the sequence ESC [ params J, whatever the parameter bytes: when they do not read
  as an integer the mode is 3; mode 0 calls \<^verbatim>\<open>clear("after")\<close>, mode 1
  \<^verbatim>\<open>clear("before")\<close>, mode 2 \<^verbatim>\<open>clear("all_without_memory")\<close>, mode 3
  \<^verbatim>\<open>clear()\<close>, and the sequence is successful when the call returns; any other integer
  gives \<^verbatim>\<open>'error'\<close> with the console untouched. With no parameter byte the text is the
  empty string, on which \<^verbatim>\<open>int\<close> raises \<^verbatim>\<open>ValueError\<close>: mode 3.
\<close>

theorem erase_in_display_dispatch:
  "(decode_int py_int params = None \<longrightarrow>
      esc_seq_decode py_int ([0x1b, 0x5b] @ params @ [0x4a]) c
      = returning Successful (clear ''all'' c))
   \<and> (decode_int py_int params = Some 0 \<longrightarrow>
      esc_seq_decode py_int ([0x1b, 0x5b] @ params @ [0x4a]) c
      = returning Successful (clear ''after'' c))
   \<and> (decode_int py_int params = Some 1 \<longrightarrow>
      esc_seq_decode py_int ([0x1b, 0x5b] @ params @ [0x4a]) c
      = returning Successful (clear ''before'' c))
   \<and> (decode_int py_int params = Some 2 \<longrightarrow>
      esc_seq_decode py_int ([0x1b, 0x5b] @ params @ [0x4a]) c
      = returning Successful (clear ''all_without_memory'' c))
   \<and> (decode_int py_int params = Some 3 \<longrightarrow>
      esc_seq_decode py_int ([0x1b, 0x5b] @ params @ [0x4a]) c
      = returning Successful (clear ''all'' c))
   \<and> (decode_int py_int params = Some n \<and> (n < 0 \<or> 3 < n) \<longrightarrow>
      esc_seq_decode py_int ([0x1b, 0x5b] @ params @ [0x4a]) c = (Return Error, c))
   \<and> (py_int [] = None \<longrightarrow>
      esc_seq_decode py_int [0x1b, 0x5b, 0x4a] c = returning Successful (clear ''all'' c))"
proof -
  have absent: "decode_int py_int [] = py_int []"
    by (simp add: decode_int_def utf8_decode_def utf8_valid_len_def)
  have empty: "esc_seq_decode py_int [0x1b, 0x5b, 0x4a] c
               = esc_seq_decode py_int ([0x1b, 0x5b] @ [] @ [0x4a]) c"
    by simp
  show ?thesis
    unfolding empty esc_seq_decode_ed
    by (auto simp: int_param_def absent Let_def)
qed


theorem erase_in_display_dispatch_witness:
  "esc_seq_decode digits_int [0x1b, 0x5b, 0x30, 0x4a] history_console
     = returning Successful (clear ''after'' history_console)
   \<and> esc_seq_decode digits_int [0x1b, 0x5b, 0x31, 0x4a] history_console
     = returning Successful (clear ''before'' history_console)
   \<and> esc_seq_decode digits_int [0x1b, 0x5b, 0x32, 0x4a] history_console
     = returning Successful (clear ''all_without_memory'' history_console)
   \<and> esc_seq_decode digits_int [0x1b, 0x5b, 0x33, 0x4a] history_console
     = returning Successful (clear ''all'' history_console)
   \<and> esc_seq_decode digits_int [0x1b, 0x5b, 0x31, 0x32, 0x4a] history_console
     = (Return Error, history_console)
   \<and> esc_seq_decode digits_int [0x1b, 0x5b, 0x3f, 0x4a] history_console
     = returning Successful (clear ''all'' history_console)
   \<and> esc_seq_decode digits_int [0x1b, 0x5b, 0x4a] history_console
     = returning Successful (clear ''all'' history_console)"
proof -
  have d: "decode_int digits_int [0x30] = Some 0" "decode_int digits_int [0x31] = Some 1"
    "decode_int digits_int [0x32] = Some 2" "decode_int digits_int [0x33] = Some 3"
    "decode_int digits_int [0x31, 0x32] = Some 12" "decode_int digits_int [0x3f] = None"
    "digits_int [] = None"
    by (simp_all add: decode_int_def utf8_decode_def utf8_valid_len_def digits_int_def)
  have "esc_seq_decode digits_int [0x1b, 0x5b, 0x30, 0x4a] history_console
     = returning Successful (clear ''after'' history_console)"
    using erase_in_display_dispatch [where py_int = digits_int and params = "[0x30]" and c = history_console] d(1) by simp
  moreover have "esc_seq_decode digits_int [0x1b, 0x5b, 0x31, 0x4a] history_console
     = returning Successful (clear ''before'' history_console)"
    using erase_in_display_dispatch [where py_int = digits_int and params = "[0x31]" and c = history_console] d(2) by simp
  moreover have "esc_seq_decode digits_int [0x1b, 0x5b, 0x32, 0x4a] history_console
     = returning Successful (clear ''all_without_memory'' history_console)"
    using erase_in_display_dispatch [where py_int = digits_int and params = "[0x32]" and c = history_console] d(3) by simp
  moreover have "esc_seq_decode digits_int [0x1b, 0x5b, 0x33, 0x4a] history_console
     = returning Successful (clear ''all'' history_console)"
    using erase_in_display_dispatch [where py_int = digits_int and params = "[0x33]" and c = history_console] d(4) by simp
  moreover have "esc_seq_decode digits_int [0x1b, 0x5b, 0x31, 0x32, 0x4a] history_console
     = (Return Error, history_console)"
    using erase_in_display_dispatch [where py_int = digits_int and params = "[0x31, 0x32]" and n = 12 and c = history_console] d(5)
    by simp
  moreover have "esc_seq_decode digits_int [0x1b, 0x5b, 0x3f, 0x4a] history_console
     = returning Successful (clear ''all'' history_console)"
    using erase_in_display_dispatch [where py_int = digits_int and params = "[0x3f]" and c = history_console] d(6) by simp
  moreover have "esc_seq_decode digits_int [0x1b, 0x5b, 0x4a] history_console
     = returning Successful (clear ''all'' history_console)"
    using erase_in_display_dispatch [where py_int = digits_int and c = history_console] d(7) by simp
  ultimately show ?thesis
    by blast
qed

section \<open>Scrolling up and back down\<close>

text \<open>
  With at least \<open>n\<close> rows of history above a window that lies inside the stream,
  \<^verbatim>\<open>scroll(n, True)\<close> followed by \<^verbatim>\<open>scroll(n, False)\<close> leaves the console it started
  from.
\<close>

lemma scroll_up_down_round_trip:
  assumes window: "end_window c = start_window c + width c * height c - 1"
    and history: "width c * n \<le> start_window c"
    and inside: "end_window c < int (length (presentation_stream c))"
  shows "snd (scroll n False (snd (scroll n True c))) = c"
proof -
  let ?c1 = "c\<lparr>start_window := start_window c - width c * n,
               end_window := start_window c - width c * n + width c * height c - 1\<rparr>"
  have up: "scroll n True c = (render_all ?c1, ?c1)"
    using history by (simp add: scroll_def Let_def)
  have first_cell: "end_window c - width c * height c + 1 = start_window c"
    using window by simp
  have "end_window ?c1 + width c * n = end_window c"
    using window by simp
  then have down: "scroll n False ?c1 = (render_all c, c)"
    using inside by (simp add: scroll_def Let_def first_cell)
  show ?thesis
    by (simp add: up down)
qed

section \<open>Rendering outside the window\<close>

text \<open>
  A character written while the window is scrolled away from the cursor is stored, and its
  rendering raises \<^verbatim>\<open>TypeError\<close>: the cell has no place on the surface. The null
  character is stored too, and the font refuses it with \<^verbatim>\<open>ValueError\<close>.
\<close>

lemma add_char_outside_window_raises:
  "fst (scroll 1 True history_console) = Return ()
   \<and> fst (add_char (py_str ''x'') (snd (scroll 1 True history_console))) = Exn TypeError
   \<and> map_option str (presentation_stream
         (snd (add_char (py_str ''x'') (snd (scroll 1 True history_console)))) ! 4) = Some 120"
  by (simp add: history_console_def scroll_def carriage_return_def console_defs add_char_def
      put_char_def py_str_def upto.simps Let_def replicate_numeral list_update_Cons_numeral)

lemma add_char_null_raises:
  "fst (add_char [0] (new_console 2 2)) = Exn ValueError"
  by (simp add: console_defs add_char_def put_char_def upto.simps Let_def replicate_numeral)

end
